theory Spec2Isabelle
  imports Complex_Main "HOL-Library.Word" "HOL-Library.Log_Nat"
begin

chapter \<open>CryptoMiniSat: the solver front end and the XOR subsumer\<close>

text \<open>
  A shallow embedding of the parts of \<^verbatim>\<open>src/solver.cpp\<close> and
  \<^verbatim>\<open>Solver/XorSubsumer.h\<close> that the properties below are about. Every
  definition follows one C++ function, named in the text before it; members of the
  solver that a function neither reads nor writes are left out of the record it works on.
\<close>

section \<open>Literals\<close>

text \<open>
  A literal is a variable with a sign bit; \<^verbatim>\<open>Lit(var, sign)\<close> builds one,
  \<^verbatim>\<open>var()\<close> and \<^verbatim>\<open>sign()\<close> read it.
\<close>

datatype Lit = Lit (var: nat) (sign: bool)

section \<open>The conflict budget\<close>

text \<open>
  \<^verbatim>\<open>Solver::set_max_confl\<close> reads \<^verbatim>\<open>get_stats().conflicts\<close> and writes
  \<^verbatim>\<open>conf.max_confl\<close>, both \<^verbatim>\<open>uint64_t\<close>:
  \<^verbatim>\<open>
  if (get_stats().conflicts + max_confl < max_confl) conf.max_confl = numeric_limits<uint64_t>::max();
  else conf.max_confl = get_stats().conflicts + max_confl;
  \<close>
\<close>

record conflict_budget =
  conflicts :: "64 word"
  max_confl :: "64 word"

definition set_max_confl :: "64 word \<Rightarrow> conflict_budget \<Rightarrow> conflict_budget" where
  "set_max_confl n s =
     (if conflicts s + n < n
      then s\<lparr>max_confl := - 1\<rparr>
      else s\<lparr>max_confl := conflicts s + n\<rparr>)"

section \<open>XorSubsumer::subset\<close>

text \<open>
  \<^verbatim>\<open>seen_tmp\<close> is a \<^verbatim>\<open>vec<char>\<close>. The three loops that write it are one
  function, \<open>set_seen\<close>, called with the value written; the loop over \<^verbatim>\<open>A\<close> is
  \<open>all_seen\<close>. An index past the end of \<^verbatim>\<open>seen_tmp\<close> is undefined behaviour in
  the C++; here it is the result \<open>None\<close>.
\<close>

type_synonym seen = "8 word list"

fun set_seen :: "Lit list \<Rightarrow> 8 word \<Rightarrow> seen \<Rightarrow> seen option" where
  "set_seen [] c seen_tmp = Some seen_tmp"
| "set_seen (l # ls) c seen_tmp =
     (if var l < length seen_tmp then set_seen ls c (seen_tmp[var l := c]) else None)"

fun all_seen :: "Lit list \<Rightarrow> seen \<Rightarrow> bool option" where
  "all_seen [] seen_tmp = Some True"
| "all_seen (l # ls) seen_tmp =
     (if var l < length seen_tmp
      then (if seen_tmp ! var l = 0 then Some False else all_seen ls seen_tmp)
      else None)"

definition XorSubsumer_subset :: "Lit list \<Rightarrow> Lit list \<Rightarrow> seen \<Rightarrow> (bool \<times> seen) option" where
  "XorSubsumer_subset A B seen_tmp =
     (case set_seen B 1 seen_tmp of
        None \<Rightarrow> None
      | Some marked \<Rightarrow>
          (case all_seen A marked of
             None \<Rightarrow> None
           | Some False \<Rightarrow> map_option (Pair False) (set_seen B 0 marked)
           | Some True \<Rightarrow> map_option (Pair True) (set_seen B 0 marked)))"

section \<open>Truth values and operations on literals\<close>

text \<open>
  The types \<^verbatim>\<open>lbool\<close>, \<^verbatim>\<open>Lit\<close> and \<^verbatim>\<open>Removed\<close> are declared in headers
  outside the sources at hand. Modelled from the spec: a literal is encoded as
  \<open>2 * var + sign\<close> and ordered by that encoding (\<open>toInt\<close>), negation flips the sign,
  a variable has a three-valued value, and the value of a literal is the value of its
  variable, flipped when the sign is set. \<^verbatim>\<open>lit_Undef\<close> is the literal of the
  variable \<^verbatim>\<open>var_Undef\<close>, which no clause mentions
  (\<^verbatim>\<open>check_too_large_variable_number\<close> rejects it).
\<close>

datatype lbool = l_True | l_False | l_Undef

datatype Removed = none | elimed | replaced

definition neg :: "Lit \<Rightarrow> Lit" where
  "neg l = Lit (var l) (\<not> sign l)"

definition toInt :: "Lit \<Rightarrow> nat" where
  "toInt l = 2 * var l + (if sign l then 1 else 0)"

definition var_Undef :: nat where
  "var_Undef = 2 ^ 28 - 1"

definition lit_Undef :: Lit where
  "lit_Undef = Lit var_Undef False"

fun lbool_xor :: "lbool \<Rightarrow> bool \<Rightarrow> lbool" where
  "lbool_xor l_Undef b = l_Undef"
| "lbool_xor l_True b = (if b then l_False else l_True)"
| "lbool_xor l_False b = (if b then l_True else l_False)"

section \<open>The solver state\<close>

text \<open>
  What ends the program or the current call: the exception
  \<^verbatim>\<open>TooLongClauseError\<close>, \<^verbatim>\<open>exit(code)\<close> after a diagnostic on the error
  stream, and the places where the C++ has undefined behaviour (a null pointer or an
  index past the end).
\<close>

datatype failure = TooLongClauseError | Exit int string | Undefined string

datatype frat_ev =
    frat_add int "Lit list"
  | frat_del int "Lit list"
  | frat_origcl int "Lit list"

record ClauseStats =
  stats_ID :: int

record Clause =
  cl_lits :: "Lit list"
  isRed :: bool
  stats :: ClauseStats
  introduced_at_conflict :: "64 word"

record SolverConf =
  perform_occur_based_simp :: bool
  max_glue_cutoff_gluehistltlimited :: nat
  shortTermHistorySize :: int
  blocking_restart_trail_hist_length :: nat
  xor_var_per_cut :: nat
  simulate_frat :: bool
  do_hyperbin_and_transred :: bool
  sampling_vars :: "nat list option"
  do_simplify_problem :: bool
  simplify_at_startup :: bool
  simplify_at_every_startup :: bool
  full_simplify_at_startup :: bool
  simplify_schedule_startup :: string
  simplify_schedule_nonstartup :: string
  conf_max_confl :: "64 word"
  conf_needed :: bool
  doSaveMem :: bool

text \<open>
  The members of \<^verbatim>\<open>Solver\<close> and of its base classes that the functions below read
  or write. The watch lists and the other members of \<^verbatim>\<open>PropEngine\<close> and
  \<^verbatim>\<open>Searcher\<close> are the component \<open>engine\<close>, of a type left open.
  \<^verbatim>\<open>getAnythingHasBeenElimed\<close> is what \<^verbatim>\<open>occsimplifier->getAnythingHasBeenElimed()\<close>
  returns; \<open>num_simplify\<close> is \<^verbatim>\<open>solveStats.num_simplify\<close>.
\<close>

record 'x solver =
  ok :: bool
  clauseID :: int
  unsat_cl_ID :: int
  conf :: SolverConf
  frat_enabled :: bool
  frat :: "frat_ev list"
  assigns :: "nat \<Rightarrow> lbool"
  trail :: "Lit list"
  varData_removed :: "nat \<Rightarrow> Removed"
  nVars :: nat
  nVarsOuter :: nat
  interToOuterMain :: "nat \<Rightarrow> nat"
  undef_must_set_vars :: "bool list"
  cl_alloc :: "Clause list"
  longIrredCls :: "nat list"
  longRedCls2 :: "nat list"
  irredBins :: nat
  redBins :: nat
  irredLits :: nat
  redLits :: nat
  sumConflicts :: "64 word"
  zeroLevAssignsByCNF :: nat
  getAnythingHasBeenElimed :: bool
  assumptions :: "Lit list"
  conflict :: "Lit list"
  num_simplify :: nat
  num_solve_calls :: nat
  engine :: 'x

text \<open>
  The collaborators whose code is outside the sources at hand; every definition below
  holds for any choice of them. Those that work on the watch lists and the assumption
  marks are functions on \<open>engine\<close>; the others may change any member.
  \<^verbatim>\<open>propagate\<close> returns whether \<^verbatim>\<open>propagate<true>().isNULL()\<close> holds, and
  \<^verbatim>\<open>uneliminate\<close> its own result. \<open>search\<close> stands for the work of
  \<^verbatim>\<open>solve_with_assumptions\<close> once the solver is known to be \<^verbatim>\<open>okay()\<close>:
  the startup call of \<^verbatim>\<open>simplify_problem\<close> and \<^verbatim>\<open>iterate_until_solved\<close>.
\<close>

record 'x env =
  enqueue :: "Lit \<Rightarrow> 'x solver \<Rightarrow> 'x solver"
  propagate :: "'x solver \<Rightarrow> bool \<times> 'x solver"
  PropEngine_attach_bin_clause :: "Lit \<Rightarrow> Lit \<Rightarrow> bool \<Rightarrow> int \<Rightarrow> 'x \<Rightarrow> 'x"
  PropEngine_attachClause :: "nat \<Rightarrow> Clause \<Rightarrow> 'x \<Rightarrow> 'x"
  get_lit_replaced_with_outer :: "'x solver \<Rightarrow> Lit \<Rightarrow> Lit"
  map_outer_to_inter :: "'x solver \<Rightarrow> Lit \<Rightarrow> Lit"
  new_var :: "bool \<Rightarrow> nat \<Rightarrow> bool \<Rightarrow> 'x solver \<Rightarrow> 'x solver"
  renumber_outer_to_inter_lits :: "'x solver \<Rightarrow> Lit list \<Rightarrow> Lit list"
  get_num_elimed_vars :: "'x solver \<Rightarrow> nat"
  uneliminate :: "nat \<Rightarrow> 'x solver \<Rightarrow> bool \<times> 'x solver"
  copy_assumptions :: "Lit list option \<Rightarrow> Lit list \<Rightarrow> Lit list"
  fill_assumptions_set :: "Lit list \<Rightarrow> 'x \<Rightarrow> 'x"
  unfill_assumptions_set :: "Lit list \<Rightarrow> 'x \<Rightarrow> 'x"
  handle_found_solution :: "lbool \<Rightarrow> bool \<Rightarrow> 'x solver \<Rightarrow> 'x solver"
  write_final_frat_clauses :: "'x solver \<Rightarrow> 'x solver"
  search :: "'x solver \<Rightarrow> failure + (lbool \<times> 'x solver)"
  MAX_XOR_RECOVER_SIZE :: nat

definition lit_value :: "'x solver \<Rightarrow> Lit \<Rightarrow> lbool" where
  "lit_value s l = lbool_xor (assigns s (var l)) (sign l)"

section \<open>Solver::sort\_and\_clean\_clause\<close>

text \<open>
  The loop reads \<^verbatim>\<open>ps[i]\<close> and writes \<^verbatim>\<open>ps[j++]\<close> with \<open>j \<le> i\<close>, so it never
  reads what it wrote: \<open>clean_loop\<close> walks the literals still to read, with \<open>p\<close> the last
  literal kept and \<open>kept\<close> the prefix \<^verbatim>\<open>ps[0..j)\<close>. The three ways out of the loop
  are the three results. The assertion that the variable of a kept literal is not removed
  writes nothing and is not part of the model.
\<close>

datatype cleaned = Satisfied | Tautology Lit | Kept "Lit list"

fun clean_loop :: "(Lit \<Rightarrow> lbool) \<Rightarrow> Lit \<Rightarrow> Lit list \<Rightarrow> Lit list \<Rightarrow> cleaned" where
  "clean_loop val p kept [] = Kept kept"
| "clean_loop val p kept (x # xs) =
     (if val x = l_True then Satisfied
      else if x = neg p then Tautology p
      else if val x \<noteq> l_False \<and> x \<noteq> p then clean_loop val x (kept @ [x]) xs
      else clean_loop val p kept xs)"

text \<open>
  \<^verbatim>\<open>std::sort\<close> orders by the encoding. On a tautology of an irredundant clause the
  outer number of the variable is marked in \<^verbatim>\<open>undef_must_set_vars\<close>, which is
  resized first when too short. The result is the returned flag, the literals left in
  \<^verbatim>\<open>ps\<close> (meaningful when the flag is true) and the solver.
\<close>

definition sort_and_clean_clause ::
    "Lit list \<Rightarrow> bool \<Rightarrow> bool \<Rightarrow> 'x solver \<Rightarrow> bool \<times> Lit list \<times> 'x solver" where
  "sort_and_clean_clause ps red is_sorted s =
     (case clean_loop (lit_value s) lit_Undef [] (if is_sorted then ps else sort_key toInt ps) of
        Satisfied \<Rightarrow> (False, ps, s)
      | Tautology p \<Rightarrow>
          (False, ps,
           if red then s
           else
             (let v = interToOuterMain s (var p);
                  u = undef_must_set_vars s;
                  u' = (if length u < v + 1 then u @ replicate (v + 1 - length u) False else u)
              in s\<lparr>undef_must_set_vars := u'[v := True]\<rparr>))
      | Kept kept \<Rightarrow> (True, kept, s))"

section \<open>Solver::add\_clause\_int\<close>

text \<open>
  Modelled from the spec: \<^verbatim>\<open>cl_alloc.Clause_new\<close> is the arena's \<open>alloc\<close>, which
  writes a header and the literals, returns a handle (here the index in the arena) and
  fails only when the clause has \<open>2\<^sup>2\<^sup>8\<close> literals or more.
\<close>

definition Clause_new ::
    "Lit list \<Rightarrow> 64 word \<Rightarrow> int \<Rightarrow> Clause list \<Rightarrow> failure + (nat \<times> Clause list)" where
  "Clause_new ps conflictNum ID arena =
     (if 2 ^ 28 \<le> length ps then Inl TooLongClauseError
      else Inr (length arena,
                arena @ [\<lparr>cl_lits = ps, isRed = False, stats = \<lparr>stats_ID = ID\<rparr>,
                           introduced_at_conflict = conflictNum\<rparr>]))"

text \<open>
  The loop that looks for \<^verbatim>\<open>frat_first\<close> leaves \<open>i\<close> at the size of \<^verbatim>\<open>ps\<close> when
  the literal is absent, and \<^verbatim>\<open>std::swap(ps[0], ps[i])\<close> is then out of range.
\<close>

fun index_of :: "Lit \<Rightarrow> Lit list \<Rightarrow> nat" where
  "index_of x [] = 0"
| "index_of x (y # ys) = (if y = x then 0 else Suc (index_of x ys))"

definition swap0 :: "Lit list \<Rightarrow> nat \<Rightarrow> Lit list" where
  "swap0 ps i = ps[0 := ps ! i, i := ps ! 0]"

text \<open>
  The part of \<^verbatim>\<open>add_clause_int\<close> between the cleaning and the \<^verbatim>\<open>switch\<close>: the
  clause gets its ID and the proof log its lines. \<^verbatim>\<open>clauseID\<close> is an
  \<^verbatim>\<open>int32_t\<close>; it is an \<open>int\<close> here.
\<close>

definition assign_ID ::
    "Lit list \<Rightarrow> Lit list \<Rightarrow> ClauseStats option \<Rightarrow> bool \<Rightarrow> Lit \<Rightarrow> bool \<Rightarrow> 'x solver
      \<Rightarrow> failure + (int \<times> 'x solver)" where
  "assign_ID lits ps cl_stats addDrat frat_first remove_frat s =
     (if remove_frat then
        (case cl_stats of
           None \<Rightarrow> Inl (Undefined ''cl_stats is NULL'')
         | Some st \<Rightarrow>
             if ps \<noteq> lits
             then Inr (clauseID s + 1,
                       s\<lparr>clauseID := clauseID s + 1,
                         frat := frat s @ [frat_add (clauseID s + 1) ps,
                                           frat_del (stats_ID st) lits]\<rparr>)
             else Inr (stats_ID st, s))
      else
        (let ID = clauseID s + 1; s1 = s\<lparr>clauseID := ID\<rparr> in
         if addDrat then
           (if frat_first \<noteq> lit_Undef then
              (let i = index_of frat_first ps in
               if i < length ps
               then Inr (ID, s1\<lparr>frat := frat s1 @ [frat_add ID (swap0 ps i)]\<rparr>)
               else Inl (Undefined ''ps[i] is past the end''))
            else Inr (ID, s1\<lparr>frat := frat s1 @ [frat_add ID ps]\<rparr>))
         else Inr (ID, s1)))"

text \<open>
  \<^verbatim>\<open>Solver::attach_bin_clause\<close> and \<^verbatim>\<open>Solver::attachClause\<close> update the
  counters and hand over to \<^verbatim>\<open>PropEngine\<close>.
\<close>

definition attach_bin_clause ::
    "'x env \<Rightarrow> Lit \<Rightarrow> Lit \<Rightarrow> bool \<Rightarrow> int \<Rightarrow> 'x solver \<Rightarrow> 'x solver" where
  "attach_bin_clause e lit1 lit2 red ID s =
     (let s1 = (if red then s\<lparr>redBins := redBins s + 1\<rparr>
                else s\<lparr>irredBins := irredBins s + 1\<rparr>)
      in s1\<lparr>engine := PropEngine_attach_bin_clause e lit1 lit2 red ID (engine s1)\<rparr>)"

definition attachClause :: "'x env \<Rightarrow> nat \<Rightarrow> Clause \<Rightarrow> 'x solver \<Rightarrow> 'x solver" where
  "attachClause e offs cl s =
     (let s1 = (if isRed cl then s\<lparr>redLits := redLits s + length (cl_lits cl)\<rparr>
                else s\<lparr>irredLits := irredLits s + length (cl_lits cl)\<rparr>)
      in s1\<lparr>engine := PropEngine_attachClause e offs cl (engine s1)\<rparr>)"

text \<open>
  The \<^verbatim>\<open>switch\<close> on the size of the cleaned clause. The result is the returned
  pointer (\<open>None\<close> for \<^verbatim>\<open>NULL\<close>, else the clause's place in the arena) and the
  solver.
\<close>

definition store_clause ::
    "'x env \<Rightarrow> Lit list \<Rightarrow> bool \<Rightarrow> ClauseStats option \<Rightarrow> bool \<Rightarrow> int \<Rightarrow> 'x solver
      \<Rightarrow> failure + (nat option \<times> 'x solver)" where
  "store_clause e ps red cl_stats attach_long ID s =
     (case ps of
        [] \<Rightarrow> Inr (None, s\<lparr>unsat_cl_ID := clauseID s, ok := False\<rparr>)
      | [l] \<Rightarrow>
          (let s1 = enqueue e l s;
               s2 = s1\<lparr>frat := frat s1 @ [frat_del ID [l]]\<rparr>
           in if attach_long
              then (case propagate e s2 of (r, s3) \<Rightarrow> Inr (None, s3\<lparr>ok := r\<rparr>))
              else Inr (None, s2))
      | [l1, l2] \<Rightarrow> Inr (None, attach_bin_clause e l1 l2 red ID s)
      | _ \<Rightarrow>
          (case Clause_new ps (sumConflicts s) ID (cl_alloc s) of
             Inl err \<Rightarrow> Inl err
           | Inr (offs, arena) \<Rightarrow>
               (let c0 = (arena ! offs)\<lparr>isRed := red\<rparr>;
                    c = (case cl_stats of
                           None \<Rightarrow> c0
                         | Some st \<Rightarrow> c0\<lparr>stats := st\<lparr>stats_ID := ID\<rparr>\<rparr>);
                    s1 = s\<lparr>cl_alloc := arena[offs := c]\<rparr>
                in if attach_long then Inr (Some offs, attachClause e offs c s1)
                   else if red then Inr (Some offs, s1\<lparr>redLits := redLits s1 + length ps\<rparr>)
                   else Inr (Some offs, s1\<lparr>irredLits := irredLits s1 + length ps\<rparr>))))"

text \<open>
  \<^verbatim>\<open>add_clause_int\<close> itself. Its assertions (\<^verbatim>\<open>okay()\<close>, decision level 0,
  \<^verbatim>\<open>unsat_cl_ID == 0\<close>) are the callers' obligations and write nothing. The second
  component of the result is what the caller's \<^verbatim>\<open>finalLits\<close> receives when it is
  not \<^verbatim>\<open>NULL\<close>.
\<close>

definition add_clause_int ::
    "'x env \<Rightarrow> Lit list \<Rightarrow> bool \<Rightarrow> ClauseStats option \<Rightarrow> bool \<Rightarrow> bool \<Rightarrow> Lit \<Rightarrow> bool \<Rightarrow> bool
      \<Rightarrow> 'x solver \<Rightarrow> failure + (nat option \<times> Lit list \<times> 'x solver)" where
  "add_clause_int e lits red cl_stats attach_long addDrat frat_first is_sorted remove_frat s =
     (case sort_and_clean_clause lits red is_sorted s of
        (False, _, s1) \<Rightarrow>
          (if remove_frat then
             (case cl_stats of
                None \<Rightarrow> Inl (Undefined ''cl_stats is NULL'')
              | Some st \<Rightarrow>
                  Inr (None, [], s1\<lparr>frat := frat s1 @ [frat_del (stats_ID st) lits]\<rparr>))
           else Inr (None, [], s1))
      | (True, ps, s1) \<Rightarrow>
          (case assign_ID lits ps cl_stats addDrat frat_first remove_frat s1 of
             Inl err \<Rightarrow> Inl err
           | Inr (ID, s2) \<Rightarrow>
               (case store_clause e ps red cl_stats attach_long ID s2 of
                  Inl err \<Rightarrow> Inl err
                | Inr (cl, s3) \<Rightarrow> Inr (cl, ps, s3))))"

section \<open>Solver::add\_clause\_helper, add\_clause\_outer, add\_clause\_outside\<close>

text \<open>
  The first loop of \<^verbatim>\<open>add_clause_helper\<close>: a variable that was never declared ends
  the program; each literal is replaced by its representative, and a variable is made for
  it when the inner numbering has none.
\<close>

fun replace_lits :: "'x env \<Rightarrow> Lit list \<Rightarrow> 'x solver \<Rightarrow> failure + (Lit list \<times> 'x solver)" where
  "replace_lits e [] s = Inr ([], s)"
| "replace_lits e (lit # rest) s =
     (if nVarsOuter s \<le> var lit
      then Inl (Exit (- 1) ''ERROR: Variable inserted, but max var is nVarsOuter'')
      else
        (let updated_lit = get_lit_replaced_with_outer e s lit;
             s1 = (if nVars s \<le> var (map_outer_to_inter e s updated_lit)
                   then new_var e False (var updated_lit) False s else s)
         in case replace_lits e rest s1 of
              Inl err \<Rightarrow> Inl err
            | Inr (rest', s2) \<Rightarrow> Inr (updated_lit # rest', s2)))"

text \<open>The second loop: eliminated variables are brought back; a failure returns false.\<close>

fun uneliminate_lits :: "'x env \<Rightarrow> Lit list \<Rightarrow> 'x solver \<Rightarrow> bool \<times> 'x solver" where
  "uneliminate_lits e [] s = (True, s)"
| "uneliminate_lits e (lit # rest) s =
     (if varData_removed s (var lit) = elimed
      then (case uneliminate e (var lit) s of
              (False, s1) \<Rightarrow> (False, s1)
            | (True, s1) \<Rightarrow> uneliminate_lits e rest s1)
      else uneliminate_lits e rest s)"

definition get_num_vars_elimed :: "'x env \<Rightarrow> 'x solver \<Rightarrow> nat" where
  "get_num_vars_elimed e s =
     (if perform_occur_based_simp (conf s) then get_num_elimed_vars e s else 0)"

definition add_clause_helper ::
    "'x env \<Rightarrow> Lit list \<Rightarrow> 'x solver \<Rightarrow> failure + (bool \<times> Lit list \<times> 'x solver)" where
  "add_clause_helper e ps s =
     (if \<not> ok s then Inr (False, ps, s)
      else if 2 ^ 28 < length ps then Inl TooLongClauseError
      else
        (case replace_lits e ps s of
           Inl err \<Rightarrow> Inl err
         | Inr (ps1, s1) \<Rightarrow>
             (let ps2 = renumber_outer_to_inter_lits e s1 ps1 in
              if get_num_vars_elimed e s1 \<noteq> 0
              then (case uneliminate_lits e ps2 s1 of (r, s2) \<Rightarrow> Inr (r, ps2, s2))
              else Inr (True, ps2, s1))))"

text \<open>
  \<^verbatim>\<open>add_clause_outer\<close>: the check for eliminated variables comes first and ends the
  program; then the clause gets an ID, goes to the proof log, through
  \<^verbatim>\<open>add_clause_helper\<close>, is sorted, and \<^verbatim>\<open>add_clause_int\<close> stores it.
\<close>

definition add_clause_outer ::
    "'x env \<Rightarrow> Lit list \<Rightarrow> bool \<Rightarrow> 'x solver \<Rightarrow> failure + (bool \<times> 'x solver)" where
  "add_clause_outer e ps red s =
     (if perform_occur_based_simp (conf s) \<and> getAnythingHasBeenElimed s
      then Inl (Exit (- 1)
        ''ERROR: Cannot add new clauses to the system if blocking was enabled. Turn it off from conf.doBlockClauses'')
      else
        (let clstats = \<lparr>stats_ID = clauseID s + 1\<rparr>;
             s1 = s\<lparr>clauseID := clauseID s + 1,
                    frat := frat s @ [frat_origcl (clauseID s + 1) ps]\<rparr>;
             origTrailSize = length (trail s1)
         in case add_clause_helper e ps s1 of
              Inl err \<Rightarrow> Inl err
            | Inr (False, ps1, s2) \<Rightarrow>
                Inr (False, s2\<lparr>frat := frat s2 @ [frat_del (stats_ID clstats) ps1]\<rparr>)
            | Inr (True, ps1, s2) \<Rightarrow>
                (case add_clause_int e (sort_key toInt ps1) red (Some clstats) True True
                        lit_Undef True True s2 of
                   Inl err \<Rightarrow> Inl err
                 | Inr (cl, _, s3) \<Rightarrow>
                     (let s4 = (case cl of
                                  None \<Rightarrow> s3
                                | Some offset \<Rightarrow>
                                    if \<not> red then s3\<lparr>longIrredCls := longIrredCls s3 @ [offset]\<rparr>
                                    else s3\<lparr>longRedCls2 := longRedCls2 s3 @ [offset]\<rparr>);
                          s5 = s4\<lparr>zeroLevAssignsByCNF :=
                                     zeroLevAssignsByCNF s4 + (length (trail s4) - origTrailSize)\<rparr>
                      in Inr (ok s5, s5)))))"

definition add_clause_outside ::
    "'x env \<Rightarrow> Lit list \<Rightarrow> bool \<Rightarrow> 'x solver \<Rightarrow> failure + (bool \<times> 'x solver)" where
  "add_clause_outside e lits red s =
     (if \<not> ok s then Inr (False, s) else add_clause_outer e lits red s)"

section \<open>Solver::solve\_with\_assumptions up to the test of okay()\<close>

text \<open>
  \<^verbatim>\<open>check_xor_cut_config_sanity\<close> and \<^verbatim>\<open>check_and_upd_config_parameters\<close> end the
  program on a configuration they reject. The blocks under \<^verbatim>\<open>USE_BREAKID\<close> and
  \<^verbatim>\<open>USE_BOSPHORUS\<close> only switch those options off and are left out.
\<close>

definition check_xor_cut_config_sanity :: "'x env \<Rightarrow> 'x solver \<Rightarrow> failure option" where
  "check_xor_cut_config_sanity e s =
     (if xor_var_per_cut (conf s) < 1
      then Some (Exit (- 1) ''ERROR: Too low cutting number. Needs to be at least 1.'')
      else if MAX_XOR_RECOVER_SIZE e < 4
      then Some (Exit (- 1) ''ERROR: MAX_XOR_RECOVER_SIZE must be at least 4.'')
      else if MAX_XOR_RECOVER_SIZE e < xor_var_per_cut (conf s) + 2
      then Some (Exit (- 1) ''ERROR: Too high cutting number'')
      else None)"

definition check_and_upd_config_parameters :: "'x env \<Rightarrow> 'x solver \<Rightarrow> failure + 'x solver" where
  "check_and_upd_config_parameters e s =
     (if 1000 < max_glue_cutoff_gluehistltlimited (conf s)
      then Inl (Exit (- 1) ''ERROR: Maximum supported glue size is currently 1000'')
      else if shortTermHistorySize (conf s) \<le> 0
      then Inl (Exit (- 1) ''ERROR: You MUST give a short term history size greater than 0!'')
      else
        (let s1 = (if (frat_enabled s \<or> simulate_frat (conf s))
                      \<and> \<not> do_hyperbin_and_transred (conf s)
                   then s\<lparr>conf := (conf s)\<lparr>do_hyperbin_and_transred := True\<rparr>\<rparr>
                   else s)
         in if blocking_restart_trail_hist_length (conf s1) = 0
            then Inl (Exit (- 1) ''ERROR: Blocking restart length must be at least 0'')
            else (case check_xor_cut_config_sanity e s1 of
                    Some err \<Rightarrow> Inl err
                  | None \<Rightarrow> Inr s1)))"





section \<open>A small solver to run the definitions on\<close>

text \<open>
  A configuration that passes the checks, a solver with four variables and nothing
  assigned, and collaborators that do the least: no literal is replaced, the numberings
  are the identity, \<open>enqueue\<close> assigns the literal and puts it on the trail, and
  propagation finds no conflict.
\<close>

definition plain_conf :: SolverConf where
  "plain_conf =
     \<lparr>perform_occur_based_simp = True, max_glue_cutoff_gluehistltlimited = 50,
      shortTermHistorySize = 50, blocking_restart_trail_hist_length = 5000,
      xor_var_per_cut = 2, simulate_frat = False, do_hyperbin_and_transred = True,
      sampling_vars = None, do_simplify_problem = True, simplify_at_startup = False,
      simplify_at_every_startup = False, full_simplify_at_startup = False,
      simplify_schedule_startup = [], simplify_schedule_nonstartup = [],
      conf_max_confl = - 1, conf_needed = True, doSaveMem = True\<rparr>"

definition plain_solver :: "unit solver" where
  "plain_solver =
     \<lparr>ok = True, clauseID = 0, unsat_cl_ID = 0, conf = plain_conf, frat_enabled = False,
      frat = [], assigns = (\<lambda>v. l_Undef), trail = [], varData_removed = (\<lambda>v. none),
      nVars = 4, nVarsOuter = 4, interToOuterMain = (\<lambda>v. v), undef_must_set_vars = [],
      cl_alloc = [], longIrredCls = [], longRedCls2 = [], irredBins = 0, redBins = 0,
      irredLits = 0, redLits = 0, sumConflicts = 0, zeroLevAssignsByCNF = 0,
      getAnythingHasBeenElimed = False, assumptions = [], conflict = [], num_simplify = 0,
      num_solve_calls = 0, engine = ()\<rparr>"

definition plain_env :: "unit env" where
  "plain_env =
     \<lparr>enqueue = (\<lambda>l s. s\<lparr>assigns := (assigns s)(var l := lbool_xor l_True (sign l)),
                           trail := trail s @ [l]\<rparr>),
      propagate = (\<lambda>s. (True, s)),
      PropEngine_attach_bin_clause = (\<lambda>l1 l2 red ID x. x),
      PropEngine_attachClause = (\<lambda>offs cl x. x),
      get_lit_replaced_with_outer = (\<lambda>s l. l),
      map_outer_to_inter = (\<lambda>s l. l),
      new_var = (\<lambda>bva orig_outer insert_varorder s. s),
      renumber_outer_to_inter_lits = (\<lambda>s ps. ps),
      get_num_elimed_vars = (\<lambda>s. 0),
      uneliminate = (\<lambda>v s. (True, s)),
      copy_assumptions = (\<lambda>a old. case a of None \<Rightarrow> [] | Some ls \<Rightarrow> ls),
      fill_assumptions_set = (\<lambda>ls x. x),
      unfill_assumptions_set = (\<lambda>ls x. x),
      handle_found_solution = (\<lambda>status only_sampling s. s),
      write_final_frat_clauses = (\<lambda>s. s),
      search = (\<lambda>s. Inr (l_True, s)),
      MAX_XOR_RECOVER_SIZE = 8\<rparr>"

text \<open>
  The solver as \<^verbatim>\<open>check_and_upd_config_parameters\<close> finds it when
  \<^verbatim>\<open>solve_with_assumptions\<close> is called on a solver that is not \<^verbatim>\<open>okay()\<close>:
  the assumptions are copied and marked, the conflict is cleared and the call is counted;
  \<^verbatim>\<open>add_clause_helper\<close> has returned at once, both times.
\<close>

definition solve_entry :: "'x env \<Rightarrow> Lit list option \<Rightarrow> 'x solver \<Rightarrow> 'x solver" where
  "solve_entry e assumps s =
     s\<lparr>assumptions := copy_assumptions e assumps (assumptions s), conflict := [],
       engine := fill_assumptions_set e (copy_assumptions e assumps (assumptions s)) (engine s),
       num_solve_calls := num_solve_calls s + 1\<rparr>"

section \<open>Double arithmetic\<close>

text \<open>
  A finite \<^verbatim>\<open>double\<close> is the real number it denotes, and an operation on doubles is
  the exact operation followed by \<open>fl\<close>, the rounding of IEEE 754 binary64 to the nearest
  number with a 53-bit significand, ties to the even one. \<open>ilog2 x\<close> is the exponent of
  \<open>x\<close>, the \<open>e\<close> with \<open>2\<^sup>e \<le> x < 2\<^sup>e\<^sup>+\<^sup>1\<close>. The operands below are integers under
  \<open>2\<^sup>6\<^sup>4\<close> and quotients of such, so no operation overflows or reaches the subnormal
  range, and no infinity or NaN arises. A conversion of an integer to \<^verbatim>\<open>double\<close>
  rounds too.
\<close>

definition round_even :: "real \<Rightarrow> int" where
  "round_even y =
     (let f = \<lfloor>y\<rfloor> in
      if y - of_int f < 1 / 2 then f
      else if 1 / 2 < y - of_int f then f + 1
      else if even f then f else f + 1)"

definition ilog2 :: "real \<Rightarrow> int" where
  "ilog2 x = (if 1 \<le> x then bitlen \<lfloor>x\<rfloor> - 1 else - bitlen (\<lceil>1 / x\<rceil> - 1))"

definition fl :: "real \<Rightarrow> real" where
  "fl x =
     (if x = 0 then 0
      else (let u = 2 powi (ilog2 \<bar>x\<bar> - 52)
            in sgn x * of_int (round_even (\<bar>x\<bar> / u)) * u))"


section \<open>Variable renumbering\<close>











section \<open>The effectiveness checks of clause minimization\<close>









chapter \<open>Properties\<close>

section \<open>The conflict budget saturates\<close>

lemma add_wraps_iff: "(c + n < n) = (2 ^ 64 \<le> unat c + unat (n::64 word))"
proof -
  have "(n \<le> n + c) = (unat n + unat c < 2 ^ 64)"
    using no_olen_add_nat [of n c] by simp
  then show ?thesis by (simp add: add.commute not_le [symmetric])
qed

text \<open>
  C9. \<^verbatim>\<open>set_max_confl(n)\<close> saturates: with \<open>c\<close> the current number of conflicts, the
  limit becomes the largest 64-bit value when \<open>c + n\<close> does not fit in 64 bits, and
  \<open>c + n\<close> otherwise.
\<close>

theorem set_max_confl_saturates:
  "unat (max_confl (set_max_confl n s)) =
     (if 2 ^ 64 \<le> unat (conflicts s) + unat n then 2 ^ 64 - 1
      else unat (conflicts s) + unat n)"
proof (cases "conflicts s + n < n")
  case True
  then have "2 ^ 64 \<le> unat (conflicts s) + unat n" by (simp add: add_wraps_iff)
  moreover have "unat (- 1 :: 64 word) = 2 ^ 64 - 1"
    by (simp add: unsigned_minus_1_eq_mask mask_eq_exp_minus_1)
  ultimately show ?thesis using True by (simp add: set_max_confl_def)
next
  case False
  then have small: "unat (conflicts s) + unat n < 2 ^ 64" by (simp add: add_wraps_iff)
  then have "unat (conflicts s + n) = unat (conflicts s) + unat n"
    by (simp add: unat_add_lem [THEN iffD1])
  then show ?thesis using False small by (simp add: set_max_confl_def)
qed

section \<open>XorSubsumer::subset decides inclusion of variables and restores its scratch array\<close>

lemma set_seen_Some:
  "\<forall>l\<in>set ls. var l < length s \<Longrightarrow>
   \<exists>s'. set_seen ls c s = Some s' \<and> length s' = length s \<and>
        (\<forall>v<length s. s' ! v = (if v \<in> var ` set ls then c else s ! v))"
proof (induction ls arbitrary: s)
  case Nil
  then show ?case by simp
next
  case (Cons l ls)
  have "\<forall>k\<in>set ls. var k < length (s[var l := c])" using Cons.prems by simp
  from Cons.IH [OF this] obtain s' where
    s': "set_seen ls c (s[var l := c]) = Some s'" "length s' = length s"
     "\<forall>v<length s. s' ! v = (if v \<in> var ` set ls then c else (s[var l := c]) ! v)"
    by auto
  show ?case using s' Cons.prems by (auto simp: nth_list_update)
qed

lemma all_seen_Some:
  "\<forall>l\<in>set ls. var l < length s \<Longrightarrow>
   all_seen ls s = Some (\<forall>l\<in>set ls. s ! var l \<noteq> 0)"
  by (induction ls) auto

text \<open>
  C10. Called with \<^verbatim>\<open>seen_tmp\<close> all zero and long enough for every variable of
  \<^verbatim>\<open>A\<close> and \<^verbatim>\<open>B\<close>, \<^verbatim>\<open>subset(A, B)\<close> returns (it does not run into
  undefined behaviour), its result is true exactly when every variable of \<^verbatim>\<open>A\<close>
  occurs in \<^verbatim>\<open>B\<close>, and \<^verbatim>\<open>seen_tmp\<close> is all zero again, on the early return
  as on the late one.
\<close>

theorem XorSubsumer_subset_correct:
  assumes "\<forall>x\<in>set seen_tmp. x = 0"
      and "\<forall>l\<in>set A \<union> set B. var l < length seen_tmp"
  shows "XorSubsumer_subset A B seen_tmp = Some (var ` set A \<subseteq> var ` set B, seen_tmp)"
proof -
  have zero: "\<And>v. v < length seen_tmp \<Longrightarrow> seen_tmp ! v = 0"
    using assms(1) by simp
  have inB: "\<forall>l\<in>set B. var l < length seen_tmp"
    and inA: "\<forall>l\<in>set A. var l < length seen_tmp"
    using assms(2) by auto
  from set_seen_Some [OF inB, of 1] obtain marked where
    m: "set_seen B 1 seen_tmp = Some marked" "length marked = length seen_tmp"
       "\<forall>v<length seen_tmp. marked ! v = (if v \<in> var ` set B then 1 else seen_tmp ! v)"
    by blast
  have inB': "\<forall>l\<in>set B. var l < length marked"
    and inA': "\<forall>l\<in>set A. var l < length marked"
    using inA inB m(2) by auto
  from set_seen_Some [OF inB', of 0] obtain cleared where
    c: "set_seen B 0 marked = Some cleared" "length cleared = length marked"
       "\<forall>v<length marked. cleared ! v = (if v \<in> var ` set B then 0 else marked ! v)"
    by blast
  have "cleared = seen_tmp"
    by (rule nth_equalityI) (use m c zero in auto)
  moreover have "(\<forall>l\<in>set A. marked ! var l \<noteq> 0) = (var ` set A \<subseteq> var ` set B)"
    using m(3) inA zero by (auto simp: image_subset_iff)
  ultimately show ?thesis
    using m(1) c(1) all_seen_Some [OF inA']
    by (simp add: XorSubsumer_subset_def split: bool.splits)
qed

theorem XorSubsumer_subset_correct_witness:
  "XorSubsumer_subset [Lit 0 False, Lit 2 True] [Lit 2 False, Lit 1 True, Lit 0 True] [0, 0, 0]
     = Some (True, [0, 0, 0])
   \<and> XorSubsumer_subset [Lit 0 False, Lit 1 True] [Lit 2 False, Lit 0 True] [0, 0, 0]
     = Some (False, [0, 0, 0])"
  using XorSubsumer_subset_correct
      [of "[0, 0, 0]" "[Lit 0 False, Lit 2 True]" "[Lit 2 False, Lit 1 True, Lit 0 True]"]
    XorSubsumer_subset_correct
      [of "[0, 0, 0]" "[Lit 0 False, Lit 1 True]" "[Lit 2 False, Lit 0 True]"]
  by simp

section \<open>Adding a clause after variable elimination\<close>

text \<open>
  C7. Once the occurrence-based simplifier has eliminated anything (and is switched on),
  \<^verbatim>\<open>add_clause_outer\<close> neither adds the clause nor returns: it ends the program
  with \<^verbatim>\<open>exit(-1)\<close> after its diagnostic, whatever the clause and the rest of the
  solver are.
\<close>

theorem add_clause_outer_after_elimination_is_fatal:
  assumes "perform_occur_based_simp (conf s)" and "getAnythingHasBeenElimed s"
  shows "add_clause_outer e ps red s =
     Inl (Exit (- 1)
       ''ERROR: Cannot add new clauses to the system if blocking was enabled. Turn it off from conf.doBlockClauses'')"
  using assms by (simp add: add_clause_outer_def)

theorem add_clause_outer_after_elimination_is_fatal_witness:
  "add_clause_outer plain_env [Lit 0 False, Lit 1 True] False
     (plain_solver\<lparr>getAnythingHasBeenElimed := True\<rparr>) =
     Inl (Exit (- 1)
       ''ERROR: Cannot add new clauses to the system if blocking was enabled. Turn it off from conf.doBlockClauses'')"
  using add_clause_outer_after_elimination_is_fatal
    [of "plain_solver\<lparr>getAnythingHasBeenElimed := True\<rparr>" plain_env "[Lit 0 False, Lit 1 True]" False]
  by (simp add: plain_solver_def plain_conf_def)

text \<open>
  \<^verbatim>\<open>add_clause_outside\<close> reaches that check only while the solver is
  \<^verbatim>\<open>okay()\<close>.
\<close>

lemma add_clause_outside_after_elimination:
  assumes "perform_occur_based_simp (conf s)" and "getAnythingHasBeenElimed s"
  shows "add_clause_outside e ps red s =
     (if ok s then add_clause_outer e ps red s else Inr (False, s))"
  by (simp add: add_clause_outside_def)

section \<open>The size check of add\_clause\_helper\<close>

lemma replace_lits_not_TooLong: "replace_lits e ps s \<noteq> Inl TooLongClauseError"
  by (induction ps arbitrary: s) (auto simp: Let_def split: sum.splits)

lemma add_clause_helper_TooLong_iff:
  "(add_clause_helper e ps s = Inl TooLongClauseError) = (ok s \<and> 2 ^ 28 < length ps)"
  using replace_lits_not_TooLong [of e ps s]
  by (auto simp: add_clause_helper_def Let_def split: sum.splits prod.splits)

lemma replace_lits_plain:
  "var l < nVarsOuter s \<Longrightarrow> var l < nVars s \<Longrightarrow>
   replace_lits plain_env (replicate n l) s = Inr (replicate n l, s)"
  by (induction n) (simp_all add: plain_env_def)

lemma sort_key_replicate: "sort_key f (replicate n x) = replicate n x"
  by (induction n) (simp_all add: insort_is_Cons)

lemma neg_neq [simp]: "neg l \<noteq> l" "l \<noteq> neg l"
  by (cases l; simp add: neg_def)+

lemma clean_loop_same:
  "val l \<noteq> l_True \<Longrightarrow> clean_loop val l kept (replicate n l) = Kept kept"
  by (induction n) simp_all

lemma clean_loop_replicate:
  "val l = l_Undef \<Longrightarrow> l \<noteq> p \<Longrightarrow> l \<noteq> neg p \<Longrightarrow> 0 < n \<Longrightarrow>
   clean_loop val p kept (replicate n l) = Kept (kept @ [l])"
  by (cases n) (simp_all add: clean_loop_same)

lemma add_clause_outside_copies:
  assumes "1 < n" and "n \<le> 2 ^ 28"
  shows "\<exists>s'. add_clause_outside plain_env (replicate n (Lit 0 False)) False plain_solver
              = Inr (True, s') \<and> trail s' = [Lit 0 False] \<and> cl_alloc s' = []"
proof -
  let ?l = "Lit 0 False"
  let ?ps = "replicate n ?l"
  let ?s1 = "plain_solver\<lparr>clauseID := 1, frat := [frat_origcl 1 ?ps]\<rparr>"
  have repl: "replace_lits plain_env ?ps ?s1 = Inr (?ps, ?s1)"
    by (rule replace_lits_plain) (simp_all add: plain_solver_def)
  have env: "get_num_elimed_vars plain_env = (\<lambda>s. 0)"
    "renumber_outer_to_inter_lits plain_env = (\<lambda>s ps. ps)"
    by (simp_all add: plain_env_def)
  have "ok ?s1" by (simp add: plain_solver_def)
  then have helper: "add_clause_helper plain_env ?ps ?s1 = Inr (True, ?ps, ?s1)"
    using assms by (simp add: add_clause_helper_def repl get_num_vars_elimed_def env)
  have "clean_loop (lit_value ?s1) lit_Undef [] ?ps = Kept [?l]"
    using clean_loop_replicate [of "lit_value ?s1" ?l lit_Undef n "[]"] assms
    by (simp add: lit_value_def plain_solver_def lit_Undef_def var_Undef_def neg_def)
  then have clean: "sort_and_clean_clause ?ps False True ?s1 = (True, [?l], ?s1)"
    by (simp add: sort_and_clean_clause_def)
  have "length [?l] \<noteq> length ?ps" using assms by simp
  then have differ: "[?l] \<noteq> ?ps" by metis
  have int: "\<exists>s'. add_clause_int plain_env ?ps False (Some \<lparr>stats_ID = 1\<rparr>) True True lit_Undef
                 True True ?s1 = Inr (None, [?l], s') \<and> trail s' = [?l] \<and> cl_alloc s' = []
               \<and> ok s'"
    using differ
    by (simp add: add_clause_int_def clean assign_ID_def store_clause_def Let_def)
       (simp add: plain_env_def plain_solver_def)
  then obtain s' where
    s': "add_clause_int plain_env ?ps False (Some \<lparr>stats_ID = 1\<rparr>) True True lit_Undef
           True True ?s1 = Inr (None, [?l], s')" "trail s' = [?l]" "cl_alloc s' = []" "ok s'"
    by blast
  have start: "ok plain_solver" "\<not> getAnythingHasBeenElimed plain_solver"
    "clauseID plain_solver = 0" "frat plain_solver = []" "trail plain_solver = []"
    by (simp_all add: plain_solver_def)
  have "add_clause_outside plain_env ?ps False plain_solver
      = Inr (True, s'\<lparr>zeroLevAssignsByCNF := zeroLevAssignsByCNF s' + 1\<rparr>)"
    using s' by (simp add: add_clause_outside_def add_clause_outer_def Let_def start helper
        sort_key_replicate)
  then show ?thesis using s' by simp
qed

lemma add_clause_outside_too_long:
  assumes "2 ^ 28 < length ps"
  shows "add_clause_outside plain_env ps False plain_solver = Inl TooLongClauseError"
proof -
  have start: "ok plain_solver" "\<not> getAnythingHasBeenElimed plain_solver"
    by (simp_all add: plain_solver_def)
  have "add_clause_helper plain_env ps
          (plain_solver\<lparr>clauseID := clauseID plain_solver + 1,
             frat := frat plain_solver @ [frat_origcl (clauseID plain_solver + 1) ps]\<rparr>)
        = Inl TooLongClauseError"
    using assms by (simp add: add_clause_helper_TooLong_iff start)
  then show ?thesis
    by (simp add: add_clause_outside_def add_clause_outer_def Let_def start)
qed

text \<open>
  C2, at a clause of exactly \<open>2\<^sup>2\<^sup>8\<close> literals: \<^verbatim>\<open>add_clause_helper\<close> tests
  \<^verbatim>\<open>ps.size() > (0x01UL << 28)\<close>, so the clause that repeats one literal
  \<open>2\<^sup>2\<^sup>8\<close> times passes, is cleaned to a unit clause and added; no
  \<^verbatim>\<open>TooLongClauseError\<close> is raised and nothing is allocated. One literal more and
  the error is raised.
\<close>

theorem add_clause_of_2p28_literals_is_accepted:
  "length (replicate (2 ^ 28) (Lit 0 False)) = 2 ^ 28
   \<and> (\<exists>s'. add_clause_outside plain_env (replicate (2 ^ 28) (Lit 0 False)) False plain_solver
              = Inr (True, s') \<and> trail s' = [Lit 0 False] \<and> cl_alloc s' = [])
   \<and> add_clause_outside plain_env (replicate (2 ^ 28 + 1) (Lit 0 False)) False plain_solver
              = Inl TooLongClauseError"
  using add_clause_outside_copies [of "2 ^ 28"]
    add_clause_outside_too_long [of "replicate (2 ^ 28 + 1) (Lit 0 False)"]
  by simp

section \<open>A solver that is not okay() stays so\<close>







lemma check_and_upd_config_parameters_search [simp]:
  "check_and_upd_config_parameters (e\<lparr>search := f\<rparr>) s = check_and_upd_config_parameters e s"
  by (simp add: check_and_upd_config_parameters_def check_xor_cut_config_sanity_def)

lemma solve_entry_search [simp]: "solve_entry (e\<lparr>search := f\<rparr>) a s = solve_entry e a s"
  by (simp add: solve_entry_def)






section \<open>What add\_clause\_int stores\<close>



lemma toInt_neg_between:
  "toInt x \<le> toInt y \<Longrightarrow> neg y = x \<Longrightarrow> y = neg x"
  by (cases x; cases y) (auto simp: neg_def)

lemma neg_neg [simp]: "neg (neg l) = l"
  by (cases l) (simp add: neg_def)















section \<open>Rounding to the nearest double\<close>







lemma fl_zero [simp]: "fl 0 = 0"
  by (simp add: fl_def)









section \<open>The renumbering keeps the order of the live variables\<close>














section \<open>The effectiveness check of recursive minimization\<close>






section \<open>The effectiveness check of binary minimization\<close>




















end
